theory Spec2Isabelle
  imports Complex_Main "HOL-Library.Multiset"
begin

section \<open>Configuration (config.py)\<close>

definition TOP_K_FUSION :: nat where
  "TOP_K_FUSION = 15"

definition TOP_K_FINAL :: nat where
  "TOP_K_FINAL = 5"

section \<open>Documents and deduplication keys\<close>

text \<open>
  A retrieved chunk is a langchain \<^verbatim>\<open>Document\<close>: its text and a metadata dictionary,
  kept here as an association list read with \<open>map_of\<close> (\<^verbatim>\<open>metadata.get\<close>).
\<close>

record document =
  page_content :: string
  metadata :: "(string \<times> string) list"

text \<open>
  \<^verbatim>\<open>doc.metadata.get("chunk_id", hash(doc.page_content))\<close>: the key is the chunk
  identifier (a string) or, without one, the integer hash of the text. A Python string
  never equals an integer, so the two kinds of key are the two constructors. The built-in
  \<^verbatim>\<open>hash\<close> is a parameter of the model.
\<close>

datatype doc_key = ChunkId string | ContentHash int

definition doc_id :: "(string \<Rightarrow> int) \<Rightarrow> document \<Rightarrow> doc_key" where
  "doc_id hash doc =
     (case map_of (metadata doc) ''chunk_id'' of
        Some c \<Rightarrow> ChunkId c
      | None \<Rightarrow> ContentHash (hash (page_content doc)))"

section \<open>Rank fusion (nodes/fusion.py)\<close>

text \<open>
  Scores are Python floats. The model does not fix their arithmetic: the score type is any
  linearly ordered type and the three operations the loop uses are taken as a record,
  \<open>fzero\<close> for \<^verbatim>\<open>0.0\<close> (the default of \<^verbatim>\<open>defaultdict(float)\<close>), \<open>fadd\<close> for
  \<^verbatim>\<open>+\<close> and \<open>frecip n\<close> for \<^verbatim>\<open>1.0 / n\<close>. Every statement below holds for
  whatever these are, rounding included.
\<close>

record 's float_ops =
  fzero :: 's
  fadd :: "'s \<Rightarrow> 's \<Rightarrow> 's"
  frecip :: "nat \<Rightarrow> 's"

type_synonym 's scores = "doc_key \<rightharpoonup> 's"

type_synonym doc_map = "(doc_key \<times> document) list"

text \<open>Reading \<^verbatim>\<open>rrf_scores[doc_id]\<close> from the defaultdict.\<close>

definition dd_get :: "'s float_ops \<Rightarrow> 's scores \<Rightarrow> doc_key \<Rightarrow> 's" where
  "dd_get F rrf_scores key = (case rrf_scores key of Some v \<Rightarrow> v | None \<Rightarrow> fzero F)"

text \<open>
  One iteration of \<^verbatim>\<open>for idx, doc in enumerate(all_docs)\<close>. \<open>doc_map\<close> is an
  insertion-ordered dictionary: a new key is appended, a known key is left alone.
\<close>

definition fuse_step ::
  "'s float_ops \<Rightarrow> (string \<Rightarrow> int) \<Rightarrow> nat \<Rightarrow> nat \<times> document
     \<Rightarrow> 's scores \<times> doc_map \<Rightarrow> 's scores \<times> doc_map" where
  "fuse_step F hash k = (\<lambda>(idx, doc) (rrf_scores, doc_map).
     let key = doc_id hash doc;
         rank = idx mod TOP_K_FINAL + 1;
         rrf_scores' = rrf_scores(key \<mapsto> fadd F (dd_get F rrf_scores key) (frecip F (k + rank)));
         doc_map' = (if map_of doc_map key = None then doc_map @ [(key, doc)] else doc_map)
     in (rrf_scores', doc_map'))"

definition fuse_loop ::
  "'s float_ops \<Rightarrow> (string \<Rightarrow> int) \<Rightarrow> nat \<Rightarrow> document list \<Rightarrow> 's scores \<times> doc_map" where
  "fuse_loop F hash k all_docs = fold (fuse_step F hash k) (enumerate 0 all_docs) (Map.empty, [])"

text \<open>
  \<^verbatim>\<open>sorted(xs, key=f, reverse=True)\<close>: CPython reverses the list, sorts it stably in
  ascending order and reverses the result, so that equal keys keep their original order.
\<close>

definition sorted_reverse :: "('a \<Rightarrow> 'k::linorder) \<Rightarrow> 'a list \<Rightarrow> 'a list" where
  "sorted_reverse f xs = rev (sort_key f (rev xs))"

text \<open>The sorted list \<^verbatim>\<open>context\<close>, before the slice.\<close>

definition fuse_context ::
  "('s::linorder) float_ops \<Rightarrow> (string \<Rightarrow> int) \<Rightarrow> nat \<Rightarrow> document list \<Rightarrow> document list" where
  "fuse_context F hash k all_docs =
     (case fuse_loop F hash k all_docs of (rrf_scores, doc_map) \<Rightarrow>
        sorted_reverse (\<lambda>d. dd_get F rrf_scores (doc_id hash d)) (map snd doc_map))"

text \<open>
  \<^verbatim>\<open>fuse_docs(state, k=60)\<close> returns \<^verbatim>\<open>context[:TOP_K_FUSION]\<close>. The graph calls the
  node with the state alone, so \<open>k\<close> is 60; it is kept as a natural number.
\<close>

definition fuse_docs_k ::
  "('s::linorder) float_ops \<Rightarrow> (string \<Rightarrow> int) \<Rightarrow> nat \<Rightarrow> document list \<Rightarrow> document list" where
  "fuse_docs_k F hash k all_docs = take TOP_K_FUSION (fuse_context F hash k all_docs)"

definition fuse_docs ::
  "('s::linorder) float_ops \<Rightarrow> (string \<Rightarrow> int) \<Rightarrow> document list \<Rightarrow> document list" where
  "fuse_docs F hash all_docs = fuse_docs_k F hash 60 all_docs"

subsection \<open>What the specification says of the fusion\<close>

text \<open>
  The deduplication key of a chunk, in the words of the specification: its \<^verbatim>\<open>chunk_id\<close>
  metadata, or a hash of its content when it has none.
\<close>

definition chunk_id :: "document \<Rightarrow> string option" where
  "chunk_id doc = map_of (metadata doc) ''chunk_id''"

definition dedup_key :: "(string \<Rightarrow> int) \<Rightarrow> document \<Rightarrow> doc_key" where
  "dedup_key hash doc =
     (if chunk_id doc = None then ContentHash (hash (page_content doc))
      else ChunkId (the (chunk_id doc)))"

text \<open>
  The rank of the occurrence at flat index \<open>idx\<close>, the score of a key as the sum, in list
  order, of \<open>1 / (60 + rank)\<close> over its occurrences, and the first-seen chunk of every key.
\<close>

definition rrf_rank :: "nat \<Rightarrow> nat" where
  "rrf_rank idx = idx mod 5 + 1"

definition occurrences :: "(string \<Rightarrow> int) \<Rightarrow> document list \<Rightarrow> doc_key \<Rightarrow> nat list" where
  "occurrences hash all_docs key =
     map fst (filter (\<lambda>(idx, d). dedup_key hash d = key) (enumerate 0 all_docs))"

definition rrf_score :: "'s float_ops \<Rightarrow> (string \<Rightarrow> int) \<Rightarrow> document list \<Rightarrow> doc_key \<Rightarrow> 's" where
  "rrf_score F hash all_docs key =
     foldl (\<lambda>s idx. fadd F s (frecip F (60 + rrf_rank idx))) (fzero F)
       (occurrences hash all_docs key)"

definition first_seen :: "(string \<Rightarrow> int) \<Rightarrow> document list \<Rightarrow> document list" where
  "first_seen hash all_docs =
     map snd (filter (\<lambda>(idx, d). dedup_key hash d \<notin> dedup_key hash ` set (take idx all_docs))
                (enumerate 0 all_docs))"

section \<open>Exceptions\<close>

text \<open>
  A raised exception is a value: the name of its class (\<^verbatim>\<open>type(e).__name__\<close>) and its
  text (\<^verbatim>\<open>str(e)\<close>), the two things the program ever reads from one.
\<close>

record py_exception =
  exc_type :: string
  exc_message :: string

definition IndexError :: py_exception where
  "IndexError = \<lparr>exc_type = ''IndexError'', exc_message = ''list index out of range''\<rparr>"

definition KeyError :: py_exception where
  "KeyError = \<lparr>exc_type = ''KeyError'', exc_message = ''text''\<rparr>"

text \<open>\<^verbatim>\<open>xs[i]\<close> on a Python list: a negative index counts from the end.\<close>

definition py_index :: "'a list \<Rightarrow> int \<Rightarrow> py_exception + 'a" where
  "py_index xs i =
     (let n = int (length xs); j = (if i < 0 then i + n else i)
      in if 0 \<le> j \<and> j < n then Inr (xs ! nat j) else Inl IndexError)"

section \<open>Reranker (nodes/reranker.py)\<close>

text \<open>
  The prompt that \<^verbatim>\<open>rerank_docs\<close> builds (the numbered previews) is read by the language
  model alone and building it raises nothing, so the model of the function starts at the
  call: \<open>response\<close> is what the \<^verbatim>\<open>try\<close> block gets from it, an exception (\<open>Inl\<close>) or
  the list \<^verbatim>\<open>response.selected_ids\<close>.

  \<^verbatim>\<open>[docs[i] for i in selected_ids if i < len(docs)]\<close> is evaluated from left to right and
  stops at the first index whose read raises.
\<close>

fun select_docs :: "document list \<Rightarrow> int list \<Rightarrow> py_exception + document list" where
  "select_docs docs [] = Inr []"
| "select_docs docs (i # ids) =
     (if i < int (length docs) then
        (case py_index docs i of
           Inl e \<Rightarrow> Inl e
         | Inr d \<Rightarrow> (case select_docs docs ids of Inl e \<Rightarrow> Inl e | Inr ds \<Rightarrow> Inr (d # ds)))
      else select_docs docs ids)"

definition rerank_docs :: "document list \<Rightarrow> py_exception + int list \<Rightarrow> document list" where
  "rerank_docs docs response =
     (case response of
        Inl e \<Rightarrow> take TOP_K_FINAL docs
      | Inr selected \<Rightarrow>
          (case select_docs docs (take TOP_K_FINAL selected) of
             Inl e \<Rightarrow> take TOP_K_FINAL docs
           | Inr reranked_docs \<Rightarrow>
               if reranked_docs = [] then take TOP_K_FINAL docs else reranked_docs))"

text \<open>
  The positions of the fused list that a selection names: its first five indices, those not
  below the candidate count, a negative one counted from the end.
\<close>

definition chosen_positions :: "document list \<Rightarrow> int list \<Rightarrow> int list" where
  "chosen_positions docs selected =
     map (\<lambda>i. if i < 0 then i + int (length docs) else i)
       (filter (\<lambda>i. i < int (length docs)) (take 5 selected))"

section \<open>Query rewriting and retrieval dispatch (nodes/rewriter.py, nodes/retrievers.py)\<close>

text \<open>
  What the rewriter gets back from the language model: an exception of the call or of
  \<^verbatim>\<open>json.loads\<close>, or a JSON object read with \<^verbatim>\<open>result.get("queries", [])\<close>. The
  function has no \<^verbatim>\<open>try\<close>: an exception leaves it. \<open>rw_docs = None\<close> is the
  \<^verbatim>\<open>"docs": None\<close> that clears the candidates.
\<close>

datatype rewrite_outcome = RewriteRaised py_exception | RewriteParsed "string list option"

record rewrite_update =
  rw_question :: string
  rw_rewritten_queries :: "string list"
  rw_docs :: "document list option"

definition rewrite_query ::
  "(string \<Rightarrow> string) \<Rightarrow> (string \<Rightarrow> rewrite_outcome) \<Rightarrow> string \<Rightarrow> py_exception + rewrite_update" where
  "rewrite_query prompt_of llm question =
     (case llm (prompt_of question) of
        RewriteRaised e \<Rightarrow> Inl e
      | RewriteParsed queries \<Rightarrow>
          Inr \<lparr>rw_question = question,
               rw_rewritten_queries = (case queries of Some qs \<Rightarrow> qs | None \<Rightarrow> []),
               rw_docs = None\<rparr>)"

text \<open>The reducer of the \<^verbatim>\<open>docs\<close> key: \<^verbatim>\<open>None\<close> clears, a list is appended.\<close>

definition docs_reducer :: "document list \<Rightarrow> document list option \<Rightarrow> document list" where
  "docs_reducer left right = (case right of None \<Rightarrow> [] | Some new \<Rightarrow> left @ new)"

datatype retriever = RetrieveVector | RetrieveBm25

text \<open>\<^verbatim>\<open>Send(node, {"question": query})\<close>.\<close>

datatype send = Send retriever string

fun send_query :: "send \<Rightarrow> string" where
  "send_query (Send r query) = query"

text \<open>
  \<^verbatim>\<open>state.get("rewritten_queries", []) + [state["question"]]\<close>, then two sends for every
  query, in order.
\<close>

definition send_all_queries :: "string list option \<Rightarrow> string \<Rightarrow> send list" where
  "send_all_queries rewritten_queries question =
     concat (map (\<lambda>query. [Send RetrieveVector query, Send RetrieveBm25 query])
               ((case rewritten_queries of Some qs \<Rightarrow> qs | None \<Rightarrow> []) @ [question]))"

text \<open>
  The Document Index is outside the program: a search takes the query and the result size.
  Both retrieval nodes call theirs with \<^verbatim>\<open>TOP_K_FINAL\<close>.
\<close>

type_synonym search = "string \<Rightarrow> nat \<Rightarrow> document list"

definition retrieve_vector :: "search \<Rightarrow> string \<Rightarrow> document list" where
  "retrieve_vector similarity_search query = similarity_search query TOP_K_FINAL"

definition retrieve_bm25 :: "search \<Rightarrow> string \<Rightarrow> document list" where
  "retrieve_bm25 lexical_search query = lexical_search query TOP_K_FINAL"

fun run_send :: "search \<Rightarrow> search \<Rightarrow> send \<Rightarrow> document list" where
  "run_send similarity_search lexical_search (Send RetrieveVector query) =
     retrieve_vector similarity_search query"
| "run_send similarity_search lexical_search (Send RetrieveBm25 query) =
     retrieve_bm25 lexical_search query"

section \<open>The question/answer log\<close>

text \<open>
  A log partition is a file \<^verbatim>\<open>qa_log_<day>.jsonl\<close> of lines. What the cache does with a
  line depends on what \<^verbatim>\<open>json.loads\<close> and the reads after it do:
  \<^item> \<open>NotJson\<close>: \<^verbatim>\<open>json.loads\<close> raises \<^verbatim>\<open>JSONDecodeError\<close>;
  \<^item> \<open>Raises\<close>: reading or handling the line raises any other exception (bytes that do
    not decode, a JSON value that is not an object, a question that is not a string);
  \<^item> \<open>Entry\<close>: a JSON object. Its \<open>question\<close>, \<open>answer\<close> and \<open>citations\<close> are the
    fields the cache reads with \<^verbatim>\<open>.get\<close>, \<open>None\<close> when the key is absent;
    \<open>rewritten_queries\<close> and \<open>reranked_context\<close> (pairs of chunk identifier and text)
    are the other fields of an Audit Record.
  The fields of an \<open>Entry\<close> have the types of the log format (a string, a list of
  strings); a record with a field of another type is a line that raises where the code
  uses that field. The JSON text of a record is not modelled: a record written on a line
  of its own is read back as written (strings are texts that UTF-8 encodes).
\<close>

record log_entry =
  question :: "string option"
  rewritten_queries :: "string list"
  answer :: "string option"
  citations :: "string list option"
  reranked_context :: "(string \<times> string) list"

datatype log_line = NotJson | Raises | Entry log_entry

text \<open>
  The partitions of a log directory, by file name. Names are of any linearly ordered type
  (Python compares the paths).
\<close>

type_synonym 'n log_dir = "('n \<times> log_line list) list"

record error_record =
  error_type :: string
  error_message :: string
  error_question :: string

text \<open>
  A partition as its writer finds it. The handler of a logger opens its file in append mode
  when the module is imported, keeps it open, and writes to it the text of a record and an
  end-of-line. What a reader then finds depends on how the file ended before:
  \<^item> \<open>Ended\<close>: with an end-of-line, or the file was empty; the record is a line of its own;
  \<^item> \<open>Blank\<close>: with white space after the last end-of-line, read as a line that is not
    JSON; the record follows it on that line, and \<^verbatim>\<open>line.strip()\<close> leaves the record;
  \<^item> \<open>Text l\<close>: with other text after the last end-of-line, read as the line \<open>l\<close>; the
    record is glued to that text, and the two on one line are not one JSON value.
  \<open>ended_lines\<close> are the lines before that end. Bytes that do not decode make the
  reading raise wherever a record is written: they are a \<open>Raises\<close> among the
  \<open>ended_lines\<close>, after which nothing is read. \<open>listed\<close> tells whether the file is
  still in the log directory: once it has been removed there, the handler goes on writing
  to the file it holds, which no reader finds.
\<close>

datatype tail = Ended | Blank | Text log_line

record log_file =
  ended_lines :: "log_line list"
  tail :: tail
  listed :: bool


definition append_record :: "log_entry \<Rightarrow> log_file \<Rightarrow> log_file" where
  "append_record e f =
     f\<lparr>ended_lines := ended_lines f @ [case tail f of Text l \<Rightarrow> NotJson | _ \<Rightarrow> Entry e],
       tail := Ended\<rparr>"

text \<open>
  The files of the two loggers, by name. Nothing in the program reads an error partition:
  it is kept as the list of the error records written to it.
\<close>

record 'n log_store =
  qa_logs :: "('n \<times> log_file) list"
  error_logs :: "('n \<times> error_record list) list"


text \<open>
  A write goes to the file of the given name; a store without it is one in which the
  handler has not been made yet, and making it creates the file.
\<close>

definition update_file :: "'n \<Rightarrow> ('a \<Rightarrow> 'a) \<Rightarrow> 'a \<Rightarrow> ('n \<times> 'a) list \<Rightarrow> ('n \<times> 'a) list" where
  "update_file name write new files =
     (if name \<in> fst ` set files
      then map (\<lambda>(n, f). if n = name then (n, write f) else (n, f)) files
      else files @ [(name, new)])"

definition write_audit :: "'n \<Rightarrow> log_entry \<Rightarrow> ('n \<times> log_file) list \<Rightarrow> ('n \<times> log_file) list" where
  "write_audit today e files =
     update_file today (append_record e)
       \<lparr>ended_lines = [Entry e], tail = Ended, listed = True\<rparr> files"

definition write_error ::
  "'n \<Rightarrow> error_record \<Rightarrow> ('n \<times> error_record list) list \<Rightarrow> ('n \<times> error_record list) list" where
  "write_error today r files = update_file today (\<lambda>rs. rs @ [r]) [r] files"

text \<open>\<^verbatim>\<open>sep.join(parts)\<close>.\<close>

fun join :: "string \<Rightarrow> string list \<Rightarrow> string" where
  "join sep [] = []"
| "join sep [x] = x"
| "join sep (x # y # ys) = x @ sep @ join sep (y # ys)"

section \<open>Cache lookup (nodes/cache.py)\<close>

text \<open>
  The content of a message is a string or a list of blocks; the question is the string, or
  the \<^verbatim>\<open>"text"\<close> of the first block. Reading it is outside any \<^verbatim>\<open>try\<close>.
\<close>

datatype block = TextBlock string | OtherBlock

datatype content = Str string | Blocks "block list"

fun content_text :: "content \<Rightarrow> py_exception + string" where
  "content_text (Str s) = Inr s"
| "content_text (Blocks []) = Inl IndexError"
| "content_text (Blocks (TextBlock t # bs)) = Inr t"
| "content_text (Blocks (OtherBlock # bs)) = Inl KeyError"

definition extract_question :: "content list \<Rightarrow> py_exception + string" where
  "extract_question messages =
     (if messages = [] then Inl IndexError else content_text (last messages))"

text \<open>
  \<^verbatim>\<open>str.strip\<close> and \<^verbatim>\<open>str.lower\<close> are parameters of the model, so that nothing
  depends on how Python treats a character.
\<close>

definition question_matches :: "(string \<Rightarrow> string) \<Rightarrow> (string \<Rightarrow> string) \<Rightarrow> string \<Rightarrow> log_entry \<Rightarrow> bool" where
  "question_matches strip lower q log_entry =
     (let logged_question = (case question log_entry of Some s \<Rightarrow> s | None \<Rightarrow> [])
      in lower (strip logged_question) = lower (strip q))"

text \<open>The text of the message of a cache hit.\<close>

definition cached_message :: "log_entry \<Rightarrow> string" where
  "cached_message log_entry =
     (let cached_answer = (case answer log_entry of Some a \<Rightarrow> a | None \<Rightarrow> []);
          cached_citations = (case citations log_entry of Some cs \<Rightarrow> cs | None \<Rightarrow> []);
          answer_text =
            (if cached_citations \<noteq> []
             then cached_answer @ ''\<newline>\<newline>Sources:\<newline>'' @ join '';\<newline>'' cached_citations
             else cached_answer)
      in ''[Cached Response]\<newline>\<newline>'' @ answer_text)"

text \<open>
  The inner loop over the lines of one file: a line that is not JSON is skipped, the first
  matching record is returned, and any other exception ends the reading of this file.
\<close>

fun scan_file :: "(string \<Rightarrow> string) \<Rightarrow> (string \<Rightarrow> string) \<Rightarrow> string \<Rightarrow> log_line list \<Rightarrow> log_entry option" where
  "scan_file strip lower q [] = None"
| "scan_file strip lower q (NotJson # ls) = scan_file strip lower q ls"
| "scan_file strip lower q (Raises # ls) = None"
| "scan_file strip lower q (Entry e # ls) =
     (if question_matches strip lower q e then Some e else scan_file strip lower q ls)"

text \<open>The outer loop over the files.\<close>

fun scan_files :: "(string \<Rightarrow> string) \<Rightarrow> (string \<Rightarrow> string) \<Rightarrow> string \<Rightarrow> 'n log_dir \<Rightarrow> log_entry option" where
  "scan_files strip lower q [] = None"
| "scan_files strip lower q (f # fs) =
     (case scan_file strip lower q (snd f) of
        Some e \<Rightarrow> Some e
      | None \<Rightarrow> scan_files strip lower q fs)"

text \<open>
  The dictionary a node returns sets some keys of the state and leaves the others alone:
  \<open>None\<close> is a key that the node does not set.
\<close>

record cache_update =
  cu_question :: string
  cu_messages :: "string list option"
  cu_cache_hit :: "bool option"

text \<open>
  \<open>log_dir = None\<close> is a log directory that does not exist. The \<^verbatim>\<open>print\<close> calls write
  to a standard output that encodes their text: they raise nothing.
\<close>

definition check_cache ::
  "(string \<Rightarrow> string) \<Rightarrow> (string \<Rightarrow> string) \<Rightarrow> ('n::linorder) log_dir option \<Rightarrow> content list
     \<Rightarrow> py_exception + cache_update" where
  "check_cache strip lower log_dir messages =
     (case extract_question messages of
        Inl e \<Rightarrow> Inl e
      | Inr q \<Rightarrow>
          (case log_dir of
             None \<Rightarrow> Inr \<lparr>cu_question = q, cu_messages = None, cu_cache_hit = None\<rparr>
           | Some files \<Rightarrow>
               (case scan_files strip lower q (sorted_reverse fst files) of
                  Some e \<Rightarrow>
                    Inr \<lparr>cu_question = q, cu_messages = Some [cached_message e],
                         cu_cache_hit = Some True\<rparr>
                | None \<Rightarrow>
                    Inr \<lparr>cu_question = q, cu_messages = None, cu_cache_hit = Some False\<rparr>)))"




subsection \<open>What the specification says of the lookup\<close>

text \<open>
  The records in the order of the scan: partitions from the greatest name down, and in each
  the records of the lines read before a line that raises.
\<close>

definition records_read :: "log_line list \<Rightarrow> log_entry list" where
  "records_read ls =
     concat (map (\<lambda>l. case l of Entry e \<Rightarrow> [e] | _ \<Rightarrow> []) (takeWhile (\<lambda>l. l \<noteq> Raises) ls))"

definition scan_order :: "('n::linorder) log_dir \<Rightarrow> log_entry list" where
  "scan_order files = concat (map (\<lambda>f. records_read (snd f)) (sorted_reverse fst files))"

section \<open>Answer generation (nodes/generator.py)\<close>

text \<open>
  What the \<^verbatim>\<open>try\<close> block gets from the language model: \<open>Raised\<close>, an exception of the
  call, of \<^verbatim>\<open>json.loads\<close> or of reading a result that is not an object; or \<open>Parsed\<close>, a
  JSON object with its \<open>answer\<close> (a string) and \<open>citations\<close> (a list of strings) when
  it has the keys. Logging raises nothing: the handlers of \<^verbatim>\<open>logging\<close> catch their own
  errors.
\<close>

datatype gen_outcome = Raised py_exception | Parsed "string option" "string list option"

record 'n gen_result =
  out_messages :: "string list"
  out_logs :: "'n log_store"
  llm_calls :: "string list"

definition source_of :: "document \<Rightarrow> string" where
  "source_of doc = (case map_of (metadata doc) ''chunk_id'' of Some c \<Rightarrow> c | None \<Rightarrow> ''Unknown'')"

definition numbered_context :: "(string \<Rightarrow> string) \<Rightarrow> document list \<Rightarrow> string" where
  "numbered_context strip docs =
     concat (map (\<lambda>doc. ''[Source: '' @ source_of doc @ '']\<newline>'' @ strip (page_content doc)
                          @ ''\<newline>\<newline>---\<newline>\<newline>'') docs)"

text \<open>
  \<open>today\<close> names the partitions that the two loggers of the process write to;
  \<open>prompt_of\<close> is \<^verbatim>\<open>GENERATE_PROMPT.format\<close>; \<open>llm\<close> is the call with what follows it
  in the \<^verbatim>\<open>try\<close> block; \<open>llm_calls\<close> lists the prompts sent.
\<close>

definition generate_answer ::
  "(string \<Rightarrow> string) \<Rightarrow> (string \<Rightarrow> string \<Rightarrow> string) \<Rightarrow> (string \<Rightarrow> gen_outcome) \<Rightarrow> 'n
     \<Rightarrow> string \<Rightarrow> string list option \<Rightarrow> document list \<Rightarrow> 'n log_store \<Rightarrow> 'n gen_result" where
  "generate_answer strip prompt_of llm today q rewritten docs logs =
     (if docs = [] then
        \<lparr>out_messages = [''I don't know.''], out_logs = logs, llm_calls = []\<rparr>
      else
        let prompt = prompt_of q (numbered_context strip docs) in
        case llm prompt of
          Parsed a c \<Rightarrow>
            let answer = (case a of Some s \<Rightarrow> s | None \<Rightarrow> []);
                citations = (case c of Some cs \<Rightarrow> cs | None \<Rightarrow> []);
                answer_text =
                  (if citations \<noteq> []
                   then answer @ ''\<newline>\<newline>Sources:\<newline>'' @ join ''\<newline>'' citations
                   else answer);
                audit = \<lparr>question = Some q,
                         rewritten_queries = (case rewritten of Some qs \<Rightarrow> qs | None \<Rightarrow> []),
                         answer = Some answer,
                         citations = Some citations,
                         reranked_context = map (\<lambda>doc. (source_of doc, page_content doc)) docs\<rparr>
            in \<lparr>out_messages = [answer_text],
                out_logs = logs\<lparr>qa_logs := write_audit today audit (qa_logs logs)\<rparr>,
                llm_calls = [prompt]\<rparr>
        | Raised e \<Rightarrow>
            \<lparr>out_messages = [''I don't know. (Error during answer generation)''],
             out_logs = logs\<lparr>error_logs :=
               write_error today
                 \<lparr>error_type = exc_type e, error_message = exc_message e, error_question = q\<rparr>
                 (error_logs logs)\<rparr>,
             llm_calls = [prompt]\<rparr>)"

section \<open>Example values\<close>

text \<open>Concrete inputs on which the statements below are evaluated.\<close>

definition rat_ops :: "rat float_ops" where
  "rat_ops = \<lparr>fzero = 0, fadd = (+), frecip = (\<lambda>n. 1 / of_nat n)\<rparr>"

definition len_hash :: "string \<Rightarrow> int" where
  "len_hash s = int (length s)"

definition dA :: document where
  "dA = \<lparr>page_content = ''alpha'', metadata = [(''chunk_id'', ''a.pdf, page 1, chunk 0'')]\<rparr>"

definition dB :: document where
  "dB = \<lparr>page_content = ''beta'', metadata = [(''chunk_id'', ''a.pdf, page 1, chunk 1'')]\<rparr>"

definition dC :: document where
  "dC = \<lparr>page_content = ''gamma'', metadata = []\<rparr>"

text \<open>
  \<open>dA2\<close> has the identifier of \<open>dA\<close> and another text; \<open>dB2\<close> has the text of \<open>dB\<close> and
  another identifier; \<open>dC2\<close> and \<open>dE\<close> have no identifier, \<open>dC2\<close> the text of \<open>dC\<close> and
  \<open>dE\<close> a text that \<open>len_hash\<close> does not tell from it.
\<close>

definition dA2 :: document where
  "dA2 = \<lparr>page_content = ''alpha, again'', metadata = [(''chunk_id'', ''a.pdf, page 1, chunk 0'')]\<rparr>"

definition dB2 :: document where
  "dB2 = \<lparr>page_content = ''beta'', metadata = [(''chunk_id'', ''b.pdf, page 7, chunk 2'')]\<rparr>"

definition dC2 :: document where
  "dC2 = \<lparr>page_content = ''gamma'', metadata = [(''source'', ''c.pdf'')]\<rparr>"

definition dE :: document where
  "dE = \<lparr>page_content = ''omega'', metadata = []\<rparr>"

definition mk_doc :: "string \<Rightarrow> document" where
  "mk_doc s = \<lparr>page_content = s, metadata = [(''chunk_id'', s)]\<rparr>"

definition six_docs :: "document list" where
  "six_docs = map mk_doc [''0'', ''1'', ''2'', ''3'', ''4'', ''5'']"

text \<open>Lower case and stripping on ASCII text, for the examples.\<close>

definition ascii_lower :: "string \<Rightarrow> string" where
  "ascii_lower s =
     map (\<lambda>c. let n = (of_char c :: nat) in if 65 \<le> n \<and> n \<le> 90 then char_of (n + 32) else c) s"

definition is_space :: "char \<Rightarrow> bool" where
  "is_space c = (c \<in> set '' \<newline>'' \<or> (of_char c :: nat) \<in> {9, 11, 12, 13})"

definition ascii_strip :: "string \<Rightarrow> string" where
  "ascii_strip s = rev (dropWhile is_space (rev (dropWhile is_space s)))"

definition entry_x :: log_entry where
  "entry_x = \<lparr>question = Some ''What is X?'', rewritten_queries = [], answer = Some ''X is Y.'',
               citations = Some [], reranked_context = []\<rparr>"

definition entry_z :: log_entry where
  "entry_z = \<lparr>question = Some ''Who wrote Z?'', rewritten_queries = [], answer = Some ''A and B.'',
               citations = Some [''z.pdf, page 1, chunk 0'', ''z.pdf, page 2, chunk 3''],
               reranked_context = []\<rparr>"

definition ex_files :: "int log_dir" where
  "ex_files = [(20240101, [Entry entry_x]), (20240102, [NotJson, Entry entry_z])]"

definition empty_logs :: "int log_store" where
  "empty_logs = \<lparr>qa_logs = [], error_logs = []\<rparr>"

definition plain_prompt :: "string \<Rightarrow> string \<Rightarrow> string" where
  "plain_prompt q ctx = q @ ''\<newline>'' @ ctx"

definition timeout_error :: py_exception where
  "timeout_error = \<lparr>exc_type = ''TimeoutError'', exc_message = ''timed out''\<rparr>"

definition ex_store :: "int log_store" where
  "ex_store =
     \<lparr>qa_logs = [(20240101, \<lparr>ended_lines = [Entry entry_x], tail = Ended, listed = True\<rparr>),
                 (20240102, \<lparr>ended_lines = [NotJson, Entry entry_z], tail = Blank, listed = True\<rparr>)],
      error_logs = [(20240102, [])]\<rparr>"








section \<open>Rank fusion: the loop computes the scores and the first-seen chunks\<close>

text \<open>The key that the code computes is the key of the specification.\<close>

lemma doc_id_dedup_key: "doc_id hash doc = dedup_key hash doc"
  by (simp add: doc_id_def dedup_key_def chunk_id_def split: option.splits)

lemma enumerate_snoc: "enumerate n (xs @ [x]) = enumerate n xs @ [(n + length xs, x)]"
  by (simp add: enumerate_append_eq)

lemma first_seen_snoc:
  "first_seen hash (xs @ [x]) =
     first_seen hash xs @ (if dedup_key hash x \<in> dedup_key hash ` set xs then [] else [x])"
proof -
  have "filter (\<lambda>(idx, d). dedup_key hash d \<notin> dedup_key hash ` set (take idx (xs @ [x]))) (enumerate 0 xs)
      = filter (\<lambda>(idx, d). dedup_key hash d \<notin> dedup_key hash ` set (take idx xs)) (enumerate 0 xs)"
    by (rule filter_cong) (auto simp: in_set_enumerate_eq)
  then show ?thesis
    by (simp add: first_seen_def enumerate_snoc)
qed

lemma first_seen_keys: "dedup_key hash ` set (first_seen hash xs) = dedup_key hash ` set xs"
proof (induction xs rule: rev_induct)
  case Nil
  show ?case by (simp add: first_seen_def)
next
  case (snoc x xs)
  then show ?case by (auto simp: first_seen_snoc)
qed

lemma first_seen_distinct: "distinct (map (dedup_key hash) (first_seen hash xs))"
proof (induction xs rule: rev_induct)
  case Nil
  show ?case by (simp add: first_seen_def)
next
  case (snoc x xs)
  then show ?case by (auto simp: first_seen_snoc first_seen_keys)
qed

lemma occurrences_snoc:
  "occurrences hash (xs @ [x]) key =
     occurrences hash xs key @ (if dedup_key hash x = key then [length xs] else [])"
  by (simp add: occurrences_def enumerate_snoc)

lemma rrf_score_snoc:
  "rrf_score F hash (xs @ [x]) key =
     (if dedup_key hash x = key
      then fadd F (rrf_score F hash xs key) (frecip F (60 + rrf_rank (length xs)))
      else rrf_score F hash xs key)"
  by (simp add: rrf_score_def occurrences_snoc)

lemma rrf_score_absent:
  "key \<notin> dedup_key hash ` set xs \<Longrightarrow> rrf_score F hash xs key = fzero F"
proof -
  assume "key \<notin> dedup_key hash ` set xs"
  then have "filter (\<lambda>(idx, d). dedup_key hash d = key) (enumerate 0 xs) = []"
    by (auto simp: filter_empty_conv in_set_enumerate_eq)
  then show ?thesis by (simp add: rrf_score_def occurrences_def)
qed

lemma fuse_loop_snoc:
  "fuse_loop F hash k (xs @ [x]) = fuse_step F hash k (length xs, x) (fuse_loop F hash k xs)"
  by (simp add: fuse_loop_def enumerate_snoc)

lemma map_of_keyed:
  "map_of (map (\<lambda>d. (f d, d)) ds) key = None \<longleftrightarrow> key \<notin> f ` set ds"
  by (induction ds) auto

lemma fuse_loop_spec:
  "fuse_loop F hash 60 xs =
     (\<lambda>key. if key \<in> dedup_key hash ` set xs then Some (rrf_score F hash xs key) else None,
      map (\<lambda>d. (dedup_key hash d, d)) (first_seen hash xs))"
proof (induction xs rule: rev_induct)
  case Nil
  show ?case by (simp add: fuse_loop_def first_seen_def)
next
  case (snoc x xs)
  show ?case
    unfolding fuse_loop_snoc snoc.IH
    by (auto simp: fuse_step_def doc_id_dedup_key Let_def map_of_keyed first_seen_keys first_seen_snoc
        rrf_score_snoc rrf_score_absent dd_get_def rrf_rank_def TOP_K_FINAL_def fun_eq_iff)
qed

lemma dd_get_spec:
  "dd_get F (\<lambda>key. if key \<in> dedup_key hash ` set xs then Some (rrf_score F hash xs key) else None) key
     = rrf_score F hash xs key"
  by (simp add: dd_get_def rrf_score_absent)

lemma fuse_context_eq:
  "fuse_context F hash 60 xs =
     sorted_reverse (\<lambda>d. rrf_score F hash xs (dedup_key hash d)) (first_seen hash xs)"
  by (simp add: fuse_context_def doc_id_dedup_key fuse_loop_spec dd_get_spec comp_def)

subsection \<open>The descending stable sort\<close>

lemma sorted_reverse_sorted: "sorted_wrt (\<lambda>a b. f b \<le> f a) (sorted_reverse f xs)"
proof -
  have "sorted (map f (sort_key f (rev xs)))" by (rule sorted_sort_key)
  then show ?thesis by (simp add: sorted_reverse_def sorted_wrt_rev sorted_map)
qed

lemma sorted_reverse_stable:
  "filter (\<lambda>x. f x = v) (sorted_reverse f xs) = filter (\<lambda>x. f x = v) xs"
  by (simp add: sorted_reverse_def rev_filter [symmetric] sort_key_stable)

lemma set_sorted_reverse: "set (sorted_reverse f xs) = set xs"
  by (simp add: sorted_reverse_def)

lemma length_sorted_reverse: "length (sorted_reverse f xs) = length xs"
  by (simp add: sorted_reverse_def)

lemma distinct_map_sorted_reverse:
  "distinct (map g (sorted_reverse f xs)) = distinct (map g xs)"
proof -
  have "mset (map g (sorted_reverse f xs)) = mset (map g xs)"
    by (simp add: sorted_reverse_def)
  then show ?thesis by (rule mset_eq_imp_distinct_iff)
qed

subsection \<open>Claim C1\<close>

text \<open>
  C1. For every list of raw candidates, \<open>fuse_docs\<close> returns the first 15 chunks of a list
  that holds exactly the first-seen chunk of every deduplication key (the chunk identifier,
  or the hash of the text without one), sorted by descending score, chunks of equal score
  in first-seen order. The score of a key is the sum, in list order, of \<open>1 / (60 + rank)\<close>
  over all its occurrences, the occurrence at flat index \<open>idx\<close> having rank
  \<open>idx mod 5 + 1\<close> (\<open>dedup_key\<close>, \<open>first_seen\<close>, \<open>rrf_score\<close>, \<open>rrf_rank\<close>).
\<close>

theorem fuse_docs_rrf:
  fixes F :: "('s::linorder) float_ops"
  shows "fuse_docs F hash docs = take 15 (fuse_context F hash 60 docs)
    \<and> sorted_wrt (\<lambda>a b. rrf_score F hash docs (dedup_key hash b) \<le> rrf_score F hash docs (dedup_key hash a))
          (fuse_context F hash 60 docs)
    \<and> (\<forall>v. filter (\<lambda>d. rrf_score F hash docs (dedup_key hash d) = v) (fuse_context F hash 60 docs)
           = filter (\<lambda>d. rrf_score F hash docs (dedup_key hash d) = v) (first_seen hash docs))
    \<and> distinct (map (dedup_key hash) (fuse_context F hash 60 docs))
    \<and> set (fuse_context F hash 60 docs) = set (first_seen hash docs)"
  unfolding fuse_context_eq
  by (simp add: fuse_docs_def fuse_docs_k_def TOP_K_FUSION_def fuse_context_eq
      sorted_reverse_sorted sorted_reverse_stable distinct_map_sorted_reverse first_seen_distinct
      set_sorted_reverse)

theorem fuse_docs_rrf_witness:
  "fuse_docs rat_ops len_hash [dB, dA, dC, dA2, dB2, dC2, dE] = [dC, dA, dB, dB2]
   \<and> map (dedup_key len_hash) [dB, dA, dC, dA2, dB2, dC2, dE]
       = [ChunkId ''a.pdf, page 1, chunk 1'', ChunkId ''a.pdf, page 1, chunk 0'', ContentHash 5,
          ChunkId ''a.pdf, page 1, chunk 0'', ChunkId ''b.pdf, page 7, chunk 2'', ContentHash 5,
          ContentHash 5]
   \<and> map (\<lambda>d. rrf_score rat_ops len_hash [dB, dA, dC, dA2, dB2, dC2, dE] (dedup_key len_hash d))
         [dC, dA, dB, dB2]
       = [1 / 63 + 1 / 61 + 1 / 62, 1 / 62 + 1 / 64, 1 / 61, 1 / 65]
   \<and> first_seen len_hash [dB, dA, dC, dA2, dB2, dC2, dE] = [dB, dA, dC, dB2]"
proof -
  have c: "fuse_context rat_ops len_hash 60 [dB, dA, dC, dA2, dB2, dC2, dE] = [dC, dA, dB, dB2]"
    by code_simp
  have k: "map (dedup_key len_hash) [dB, dA, dC, dA2, dB2, dC2, dE]
       = [ChunkId ''a.pdf, page 1, chunk 1'', ChunkId ''a.pdf, page 1, chunk 0'', ContentHash 5,
          ChunkId ''a.pdf, page 1, chunk 0'', ChunkId ''b.pdf, page 7, chunk 2'', ContentHash 5,
          ContentHash 5]"
    by code_simp
  have s: "map (\<lambda>d. rrf_score rat_ops len_hash [dB, dA, dC, dA2, dB2, dC2, dE] (dedup_key len_hash d))
         [dC, dA, dB, dB2]
       = [1 / 63 + 1 / 61 + 1 / 62, 1 / 62 + 1 / 64, 1 / 61, 1 / 65]"
    by code_simp
  have f: "first_seen len_hash [dB, dA, dC, dA2, dB2, dC2, dE] = [dB, dA, dC, dB2]"
    by code_simp
  from fuse_docs_rrf [of rat_ops len_hash "[dB, dA, dC, dA2, dB2, dC2, dE]"] c k s f show ?thesis
    by simp
qed

section \<open>Reranker: what a selection yields\<close>

lemma select_docs_filter:
  "select_docs docs ids = Inr r \<Longrightarrow>
     r = map (\<lambda>i. docs ! nat (if i < 0 then i + int (length docs) else i))
           (filter (\<lambda>i. i < int (length docs)) ids)
     \<and> (\<forall>i \<in> set (filter (\<lambda>i. i < int (length docs)) ids). - int (length docs) \<le> i)"
proof (induction ids arbitrary: r)
  case Nil
  then show ?case by simp
next
  case (Cons i ids)
  show ?case
  proof (cases "i < int (length docs)")
    case False
    with Cons show ?thesis by simp
  next
    case True
    with Cons.prems obtain d ds where
      d: "py_index docs i = Inr d" and ds: "select_docs docs ids = Inr ds" and r: "r = d # ds"
      by (auto split: sum.splits)
    from d have "- int (length docs) \<le> i"
      and "d = docs ! nat (if i < 0 then i + int (length docs) else i)"
      by (auto simp: py_index_def Let_def split: if_splits)
    with Cons.IH [OF ds] True r show ?thesis by simp
  qed
qed

lemma select_docs_ok:
  "\<forall>i \<in> set ids. i < int (length docs) \<longrightarrow> - int (length docs) \<le> i \<Longrightarrow>
   select_docs docs ids = Inr (map (\<lambda>i. docs ! nat (if i < 0 then i + int (length docs) else i))
           (filter (\<lambda>i. i < int (length docs)) ids))"
  by (induction ids) (auto simp: py_index_def Let_def)

lemma select_docs_length: "select_docs docs ids = Inr r \<Longrightarrow> length r \<le> length ids"
  using select_docs_filter [of docs ids r] by simp

lemma select_docs_subset: "select_docs docs ids = Inr r \<Longrightarrow> set r \<subseteq> set docs"
proof -
  assume a: "select_docs docs ids = Inr r"
  have "docs ! nat (if i < 0 then i + int (length docs) else i) \<in> set docs"
    if "i < int (length docs)" "- int (length docs) \<le> i" for i
    using that by (auto intro!: nth_mem)
  with select_docs_filter [OF a] show ?thesis by auto
qed

lemma rerank_docs_length: "length (rerank_docs docs response) \<le> 5"
  by (auto simp: rerank_docs_def TOP_K_FINAL_def split: sum.splits dest!: select_docs_length)

lemma rerank_docs_subset: "set (rerank_docs docs response) \<subseteq> set docs"
  by (auto simp: rerank_docs_def split: sum.splits dest: select_docs_subset in_set_takeD)

lemma fuse_docs_length: 
  fixes F :: "('s::linorder) float_ops"
  shows "length (fuse_docs F hash raw) \<le> 15"
  by (simp add: fuse_docs_def fuse_docs_k_def TOP_K_FUSION_def)

lemma distinct_positions_length:
  assumes "distinct (ps :: int list)" "\<forall>p \<in> set ps. 0 \<le> p \<and> p < int n"
  shows "length ps \<le> n"
proof -
  have "set ps \<subseteq> {0..<int n}" using assms(2) by auto
  then have "card (set ps) \<le> card {0..<int n}" by (intro card_mono) auto
  with assms(1) show ?thesis by (simp add: distinct_card)
qed

lemma rerank_docs_distinct_length:
  assumes "response = Inr selected" "distinct (chosen_positions docs selected)"
  shows "length (rerank_docs docs response) \<le> length docs"
proof (cases "select_docs docs (take 5 selected)")
  case (Inl e)
  with assms(1) show ?thesis by (simp add: rerank_docs_def TOP_K_FINAL_def)
next
  case (Inr r)
  from select_docs_filter [OF Inr]
  have len: "length r = length (chosen_positions docs selected)"
    and lo: "\<forall>i \<in> set (filter (\<lambda>i. i < int (length docs)) (take 5 selected)). - int (length docs) \<le> i"
    by (simp_all add: chosen_positions_def)
  have "\<forall>p \<in> set (chosen_positions docs selected). 0 \<le> p \<and> p < int (length docs)"
    using lo by (auto simp: chosen_positions_def)
  with assms(2) have "length (chosen_positions docs selected) \<le> length docs"
    by (rule distinct_positions_length)
  with len Inr assms(1) show ?thesis by (simp add: rerank_docs_def TOP_K_FINAL_def)
qed

lemma rerank_docs_raise_length: "length (rerank_docs docs (Inl e)) \<le> length docs"
  by (simp add: rerank_docs_def)

subsection \<open>Claim C2\<close>

text \<open>
  C2 as stated fails: a selection may name the same chunk twice, and nothing removes the
  repetition. With one fused chunk and the selection \<open>[0, 0]\<close> the reranked context has
  two elements.
\<close>

theorem rerank_sizes_counterexample:
  "fuse_docs rat_ops len_hash [dA] = [dA]
   \<and> rerank_docs (fuse_docs rat_ops len_hash [dA]) (Inr [0, 0]) = [dA, dA]
   \<and> \<not> length (rerank_docs (fuse_docs rat_ops len_hash [dA]) (Inr [0, 0]))
        \<le> length (fuse_docs rat_ops len_hash [dA])"
  by code_simp

text \<open>
  C2, amended. After the rerank stage the fused context has at most 15 chunks, the reranked
  context has at most 5, all of them chunks of the fused context; and the reranked context
  is no longer than the fused context when the fused context has at least 5 chunks, and
  also when the call failed or the positions named by the selection are pairwise different.
\<close>

theorem rerank_sizes:
  fixes F :: "('s::linorder) float_ops"
  shows "length (fuse_docs F hash raw) \<le> 15
    \<and> length (rerank_docs (fuse_docs F hash raw) response) \<le> 5
    \<and> set (rerank_docs (fuse_docs F hash raw) response) \<subseteq> set (fuse_docs F hash raw)
    \<and> (5 \<le> length (fuse_docs F hash raw)
         \<longrightarrow> length (rerank_docs (fuse_docs F hash raw) response) \<le> length (fuse_docs F hash raw))
    \<and> ((\<forall>selected. response = Inr selected
            \<longrightarrow> distinct (chosen_positions (fuse_docs F hash raw) selected))
         \<longrightarrow> length (rerank_docs (fuse_docs F hash raw) response) \<le> length (fuse_docs F hash raw))"
proof -
  have "length (rerank_docs (fuse_docs F hash raw) response) \<le> length (fuse_docs F hash raw)"
    if "\<forall>selected. response = Inr selected \<longrightarrow> distinct (chosen_positions (fuse_docs F hash raw) selected)"
  proof (cases response)
    case (Inl e)
    then show ?thesis by (simp add: rerank_docs_raise_length)
  next
    case (Inr selected)
    with that show ?thesis by (simp add: rerank_docs_distinct_length)
  qed
  moreover have "length (rerank_docs (fuse_docs F hash raw) response) \<le> length (fuse_docs F hash raw)"
    if "5 \<le> length (fuse_docs F hash raw)"
    using that rerank_docs_length [of "fuse_docs F hash raw" response] by linarith
  ultimately show ?thesis
    using fuse_docs_length [of F hash raw] rerank_docs_length [of "fuse_docs F hash raw" response]
      rerank_docs_subset [of "fuse_docs F hash raw" response]
    by blast
qed

theorem rerank_sizes_witness:
  "5 \<le> length (fuse_docs rat_ops len_hash six_docs)
   \<and> distinct (chosen_positions (fuse_docs rat_ops len_hash six_docs) [-1, 0, 7])
   \<and> length (rerank_docs (fuse_docs rat_ops len_hash six_docs) (Inr [-1, 0, 7])) = 2
   \<and> length (rerank_docs (fuse_docs rat_ops len_hash six_docs) (Inr [-1, 0, 7]))
       \<le> length (fuse_docs rat_ops len_hash six_docs)"
proof -
  have l: "5 \<le> length (fuse_docs rat_ops len_hash six_docs)"
    by code_simp
  have d: "distinct (chosen_positions (fuse_docs rat_ops len_hash six_docs) [-1, 0, 7])"
    by code_simp
  have r: "length (rerank_docs (fuse_docs rat_ops len_hash six_docs) (Inr [-1, 0, 7])) = 2"
    by code_simp
  from rerank_sizes [of rat_ops len_hash six_docs "Inr [-1, 0, 7]"] l
  have "length (rerank_docs (fuse_docs rat_ops len_hash six_docs) (Inr [-1, 0, 7]))
       \<le> length (fuse_docs rat_ops len_hash six_docs)"
    by blast
  with l d r show ?thesis
    by (simp only: simp_thms)
qed

subsection \<open>Claim C3\<close>

text \<open>
  C3. If the rerank call raises, or if no selected index is left after those greater than
  or equal to the candidate count are discarded (among the first five, which are the ones
  the code reads, and so also among all of them), \<open>rerank_docs\<close> returns the first 5
  chunks of the fused list, in fusion order.
\<close>

theorem rerank_fallback:
  "rerank_docs docs (Inl e) = take 5 docs
   \<and> (filter (\<lambda>i. i < int (length docs)) (take 5 selected) = []
        \<longrightarrow> rerank_docs docs (Inr selected) = take 5 docs)
   \<and> (filter (\<lambda>i. i < int (length docs)) selected = []
        \<longrightarrow> rerank_docs docs (Inr selected) = take 5 docs)"
proof -
  have a: "rerank_docs docs (Inr selected) = take 5 docs"
    if "filter (\<lambda>i. i < int (length docs)) (take 5 selected) = []"
  proof -
    from that have "\<forall>i \<in> set (take 5 selected). i < int (length docs) \<longrightarrow> - int (length docs) \<le> i"
      by (auto simp: filter_empty_conv)
    from select_docs_ok [OF this] that show ?thesis
      by (simp add: rerank_docs_def TOP_K_FINAL_def)
  qed
  have b: "filter (\<lambda>i. i < int (length docs)) (take 5 selected) = []"
    if "filter (\<lambda>i. i < int (length docs)) selected = []"
    using that by (auto simp: filter_empty_conv dest: in_set_takeD)
  show ?thesis using a b by (simp add: rerank_docs_def TOP_K_FINAL_def)
qed

theorem rerank_fallback_witness:
  "filter (\<lambda>i. i < int (length six_docs)) (take 5 [6, 9]) = []
   \<and> filter (\<lambda>i. i < int (length six_docs)) [6, 9] = []
   \<and> rerank_docs six_docs (Inl IndexError) = take 5 six_docs
   \<and> rerank_docs six_docs (Inr [6, 9]) = take 5 six_docs"
proof -
  have h: "filter (\<lambda>i. i < int (length six_docs)) (take 5 [6, 9]) = []"
    "filter (\<lambda>i. i < int (length six_docs)) [6, 9] = []"
    by code_simp+
  from rerank_fallback [of six_docs IndexError "[6, 9]"] h show ?thesis by simp
qed

subsection \<open>Claim C10\<close>

text \<open>
  C10 as stated fails: an index below \<open>- len(docs)\<close> passes the filter too, its read
  raises \<^verbatim>\<open>IndexError\<close>, and the handler replaces the whole selection by the first 5
  chunks. With six chunks and the selection \<open>[-1, -7]\<close> the last chunk is not in the
  reranked context.
\<close>

theorem rerank_negative_index_counterexample:
  "- int (length six_docs) \<le> - 1 \<and> (- 1 :: int) < 0 \<and> - 1 \<in> set [- 1, - 7 :: int]
   \<and> rerank_docs six_docs (Inr [- 1, - 7]) = take 5 six_docs
   \<and> six_docs ! nat (int (length six_docs) + (- 1)) \<notin> set (rerank_docs six_docs (Inr [- 1, - 7]))"
  by code_simp

text \<open>
  C10, amended. An index \<open>i\<close> with \<open>- len(docs) \<le> i < 0\<close> among the first five selected
  indices is not discarded, and the chunk at position \<open>len(docs) + i\<close> is in the reranked
  context, provided that no index among the first five is below \<open>- len(docs)\<close>. The
  reranked context is then the list of the chunks at the chosen positions.
\<close>

theorem rerank_negative_index:
  assumes "i \<in> set (take 5 selected)" and "- int (length docs) \<le> i" and "i < 0"
    and "\<forall>j \<in> set (take 5 selected). j < int (length docs) \<longrightarrow> - int (length docs) \<le> j"
  shows "rerank_docs docs (Inr selected) =
           map (\<lambda>j. docs ! nat (if j < 0 then j + int (length docs) else j))
             (filter (\<lambda>j. j < int (length docs)) (take 5 selected))
         \<and> docs ! nat (int (length docs) + i) \<in> set (rerank_docs docs (Inr selected))"
proof -
  let ?kept = "filter (\<lambda>j. j < int (length docs)) (take 5 selected)"
  from assms(1,3) have mem: "i \<in> set ?kept" by simp
  then have ne: "?kept \<noteq> []" by (metis empty_iff list.set(1))
  from select_docs_ok [OF assms(4)] ne
  have eq: "rerank_docs docs (Inr selected) =
      map (\<lambda>j. docs ! nat (if j < 0 then j + int (length docs) else j)) ?kept"
    by (simp add: rerank_docs_def TOP_K_FINAL_def)
  define pick where "pick = (\<lambda>j. docs ! nat (if j < 0 then j + int (length docs) else j))"
  from mem have "pick i \<in> pick ` set ?kept" by (rule imageI)
  then have "pick i \<in> set (map pick ?kept)" by (simp only: set_map)
  moreover from assms(3) have "pick i = docs ! nat (int (length docs) + i)"
    by (simp add: pick_def add.commute)
  ultimately show ?thesis using eq by (simp only: pick_def simp_thms)
qed

theorem rerank_negative_index_witness:
  "(- 1 :: int) \<in> set (take 5 [- 1, 2]) \<and> - int (length six_docs) \<le> - 1 \<and> (- 1 :: int) < 0
   \<and> rerank_docs six_docs (Inr [- 1, 2]) = [six_docs ! 5, six_docs ! 2]
   \<and> six_docs ! nat (int (length six_docs) + (- 1)) \<in> set (rerank_docs six_docs (Inr [- 1, 2]))"
proof -
  have h: "(- 1 :: int) \<in> set (take 5 [- 1, 2])" "- int (length six_docs) \<le> - 1" "(- 1 :: int) < 0"
    "\<forall>j \<in> set (take 5 [- 1, 2 :: int]). j < int (length six_docs) \<longrightarrow> - int (length six_docs) \<le> j"
    by (simp_all add: six_docs_def)
  have r: "rerank_docs six_docs (Inr [- 1, 2]) = [six_docs ! 5, six_docs ! 2]"
    by code_simp
  from rerank_negative_index [OF h]
  have m: "six_docs ! nat (int (length six_docs) + (- 1)) \<in> set (rerank_docs six_docs (Inr [- 1, 2]))"
    by (rule conjunct2)
  from h(1-3) r m show ?thesis
    by blast
qed

section \<open>Retrieval dispatch\<close>

lemma send_queries_map:
  "map send_query (concat (map (\<lambda>query. [Send RetrieveVector query, Send RetrieveBm25 query]) qs))
     = concat (map (\<lambda>query. [query, query]) qs)"
  by (induction qs) auto

lemma send_queries_set:
  "set (concat (map (\<lambda>query. [Send RetrieveVector query, Send RetrieveBm25 query]) qs))
     = Send RetrieveVector ` set qs \<union> Send RetrieveBm25 ` set qs"
  by (induction qs) auto

lemma send_queries_length:
  "length (concat (map (\<lambda>query. [Send RetrieveVector query, Send RetrieveBm25 query]) qs))
     = 2 * length qs"
  by (induction qs) auto

subsection \<open>Claim C4\<close>

text \<open>
  C4 as stated fails: the rewriter keeps whatever list the language model returned, and the
  dispatcher sends all of it. With four rewritten queries there are five variants and ten
  retrieval operations.
\<close>

theorem dispatch_counterexample:
  "rewrite_query id (\<lambda>p. RewriteParsed (Some [''a'', ''b'', ''c'', ''d''])) ''q''
     = Inr \<lparr>rw_question = ''q'', rw_rewritten_queries = [''a'', ''b'', ''c'', ''d''], rw_docs = None\<rparr>
   \<and> length (send_all_queries (Some [''a'', ''b'', ''c'', ''d'']) ''q'') = 10
   \<and> \<not> length (send_all_queries (Some [''a'', ''b'', ''c'', ''d'']) ''q'') \<le> 8"
  by (simp add: rewrite_query_def send_all_queries_def)

text \<open>
  C4, amended. For every request that reaches the retrieval stage (the rewriter returned),
  the dispatched query variants are exactly the set of the rewritten queries and the
  original question, each one sent to the dense and to the lexical backend, which search
  with a result size of 5; \<open>2 * (n + 1)\<close> retrieval operations are dispatched for \<open>n\<close>
  rewritten queries, so at most 8 when the rewriter returned at most 3.
\<close>

theorem dispatch_sends:
  assumes "rewrite_query prompt_of llm q = Inr u"
  shows "set (map send_query (send_all_queries (Some (rw_rewritten_queries u)) (rw_question u)))
           = set (rw_rewritten_queries u) \<union> {q}
    \<and> set (send_all_queries (Some (rw_rewritten_queries u)) (rw_question u))
           = Send RetrieveVector ` (set (rw_rewritten_queries u) \<union> {q})
             \<union> Send RetrieveBm25 ` (set (rw_rewritten_queries u) \<union> {q})
    \<and> run_send similarity_search lexical_search (Send RetrieveVector v) = similarity_search v 5
    \<and> run_send similarity_search lexical_search (Send RetrieveBm25 v) = lexical_search v 5
    \<and> length (send_all_queries (Some (rw_rewritten_queries u)) (rw_question u))
           = 2 * (length (rw_rewritten_queries u) + 1)
    \<and> (length (rw_rewritten_queries u) \<le> 3
         \<longrightarrow> length (send_all_queries (Some (rw_rewritten_queries u)) (rw_question u)) \<le> 8)"
proof -
  from assms have q: "rw_question u = q"
    by (auto simp: rewrite_query_def split: rewrite_outcome.splits)
  have a: "set (map send_query (send_all_queries (Some (rw_rewritten_queries u)) q))
      = set (rw_rewritten_queries u) \<union> {q}"
    unfolding send_all_queries_def by (simp only: send_queries_map) auto
  have b: "set (send_all_queries (Some (rw_rewritten_queries u)) q)
      = Send RetrieveVector ` (set (rw_rewritten_queries u) \<union> {q})
        \<union> Send RetrieveBm25 ` (set (rw_rewritten_queries u) \<union> {q})"
    unfolding send_all_queries_def by (simp only: send_queries_set) auto
  have c: "length (send_all_queries (Some (rw_rewritten_queries u)) q)
      = 2 * (length (rw_rewritten_queries u) + 1)"
    unfolding send_all_queries_def by (simp only: send_queries_length) simp
  have d: "run_send similarity_search lexical_search (Send RetrieveVector v) = similarity_search v 5"
    "run_send similarity_search lexical_search (Send RetrieveBm25 v) = lexical_search v 5"
    by (simp_all add: retrieve_vector_def retrieve_bm25_def TOP_K_FINAL_def)
  from c have e: "length (rw_rewritten_queries u) \<le> 3
      \<longrightarrow> length (send_all_queries (Some (rw_rewritten_queries u)) q) \<le> 8"
    by simp
  from a b c d e show ?thesis
    unfolding q by blast
qed

theorem dispatch_sends_witness:
  "rewrite_query id (\<lambda>p. RewriteParsed (Some [''a'', ''b'', ''c''])) ''q''
     = Inr \<lparr>rw_question = ''q'', rw_rewritten_queries = [''a'', ''b'', ''c''], rw_docs = None\<rparr>
   \<and> length [''a'', ''b'', ''c''] \<le> (3 :: nat)
   \<and> length (send_all_queries (Some [''a'', ''b'', ''c'']) ''q'') = 8
   \<and> set (map send_query (send_all_queries (Some [''a'', ''b'', ''c'']) ''q''))
       = {''a'', ''b'', ''c'', ''q''}"
proof -
  have h: "rewrite_query id (\<lambda>p. RewriteParsed (Some [''a'', ''b'', ''c''])) ''q''
     = Inr \<lparr>rw_question = ''q'', rw_rewritten_queries = [''a'', ''b'', ''c''], rw_docs = None\<rparr>"
    by (simp add: rewrite_query_def)
  from dispatch_sends [OF h] h show ?thesis
    by auto
qed

section \<open>Cache lookup: the scan returns the first matching record read\<close>

lemma find_append':
  "find P (xs @ ys) = (case find P xs of Some x \<Rightarrow> Some x | None \<Rightarrow> find P ys)"
  by (induction xs) auto

lemma scan_file_find:
  "scan_file strip lower q ls = find (question_matches strip lower q) (records_read ls)"
  by (induction strip lower q ls rule: scan_file.induct) (auto simp: records_read_def)

lemma scan_files_find:
  "scan_files strip lower q fs =
     find (question_matches strip lower q) (concat (map (\<lambda>f. records_read (snd f)) fs))"
  by (induction fs) (auto simp: find_append' scan_file_find split: option.splits)

lemma check_cache_find:
  "extract_question messages = Inr q \<Longrightarrow>
   check_cache strip lower (Some files) messages =
     (case find (question_matches strip lower q) (scan_order files) of
        Some e \<Rightarrow> Inr \<lparr>cu_question = q, cu_messages = Some [cached_message e], cu_cache_hit = Some True\<rparr>
      | None \<Rightarrow> Inr \<lparr>cu_question = q, cu_messages = None, cu_cache_hit = Some False\<rparr>)"
  by (simp add: check_cache_def scan_files_find scan_order_def)









subsection \<open>Claim C6\<close>

text \<open>
  C6 as stated fails: the \<^verbatim>\<open>Sources:\<close> block is added only when the logged citation
  list is not empty. For a record logged with no citation the message is the prefix and the
  answer, and nothing else.
\<close>

theorem cache_hit_message_counterexample:
  "question_matches ascii_strip ascii_lower '' what is x?'' entry_x
   \<and> check_cache ascii_strip ascii_lower (Some ex_files) [Str '' what is x?'']
       = Inr \<lparr>cu_question = '' what is x?'',
              cu_messages = Some [''[Cached Response]\<newline>\<newline>X is Y.''],
              cu_cache_hit = Some True\<rparr>"
  by code_simp

text \<open>
  C6, amended. For every question that matches a logged question (equal after
  \<^verbatim>\<open>strip\<close> and \<^verbatim>\<open>lower\<close>) among the records that the scan reads, \<open>check_cache\<close>
  returns, for the first such record in the order of the scan, the logged answer prefixed
  with \<^verbatim>\<open>[Cached Response]\<close> and an empty line, followed, when the logged citation list
  is not empty, by an empty line, the line \<^verbatim>\<open>Sources:\<close> and the citations, one per line
  and separated by a semicolon at the end of the line; it sets \<open>cache_hit\<close> to true.
\<close>

theorem cache_hit_message:
  assumes "extract_question messages = Inr q"
    and "e0 \<in> set (scan_order files)" and "question_matches strip lower q e0"
  shows "\<exists>e. find (question_matches strip lower q) (scan_order files) = Some e
    \<and> check_cache strip lower (Some files) messages =
        Inr \<lparr>cu_question = q,
             cu_messages = Some [''[Cached Response]\<newline>\<newline>''
               @ (case answer e of Some a \<Rightarrow> a | None \<Rightarrow> [])
               @ (case citations e of
                    Some (c # cs) \<Rightarrow> ''\<newline>\<newline>Sources:\<newline>'' @ join '';\<newline>'' (c # cs)
                  | _ \<Rightarrow> [])],
             cu_cache_hit = Some True\<rparr>"
proof -
  from assms(2,3) obtain e where e: "find (question_matches strip lower q) (scan_order files) = Some e"
    by (cases "find (question_matches strip lower q) (scan_order files)") (auto simp: find_None_iff)
  have "cached_message e = ''[Cached Response]\<newline>\<newline>''
               @ (case answer e of Some a \<Rightarrow> a | None \<Rightarrow> [])
               @ (case citations e of
                    Some (c # cs) \<Rightarrow> ''\<newline>\<newline>Sources:\<newline>'' @ join '';\<newline>'' (c # cs)
                  | _ \<Rightarrow> [])"
    by (simp add: cached_message_def Let_def split: option.splits list.splits)
  with e check_cache_find [OF assms(1), of strip lower files] show ?thesis
    by simp
qed

theorem cache_hit_message_witness:
  "extract_question [Str ''WHO wrote z? ''] = Inr ''WHO wrote z? ''
   \<and> entry_z \<in> set (scan_order ex_files)
   \<and> question_matches ascii_strip ascii_lower ''WHO wrote z? '' entry_z
   \<and> check_cache ascii_strip ascii_lower (Some ex_files) [Str ''WHO wrote z? '']
       = Inr \<lparr>cu_question = ''WHO wrote z? '',
              cu_messages = Some [''[Cached Response]\<newline>\<newline>A and B.\<newline>\<newline>Sources:\<newline>z.pdf, page 1, chunk 0;\<newline>z.pdf, page 2, chunk 3''],
              cu_cache_hit = Some True\<rparr>"
proof -
  have h: "extract_question [Str ''WHO wrote z? ''] = Inr ''WHO wrote z? ''"
    "entry_z \<in> set (scan_order ex_files)"
    "question_matches ascii_strip ascii_lower ''WHO wrote z? '' entry_z"
    by code_simp+
  have f: "find (question_matches ascii_strip ascii_lower ''WHO wrote z? '') (scan_order ex_files) = Some entry_z"
    by code_simp
  have m: "''[Cached Response]\<newline>\<newline>''
               @ (case answer entry_z of Some a \<Rightarrow> a | None \<Rightarrow> [])
               @ (case citations entry_z of
                    Some (c # cs) \<Rightarrow> ''\<newline>\<newline>Sources:\<newline>'' @ join '';\<newline>'' (c # cs)
                  | _ \<Rightarrow> [])
     = ''[Cached Response]\<newline>\<newline>A and B.\<newline>\<newline>Sources:\<newline>z.pdf, page 1, chunk 0;\<newline>z.pdf, page 2, chunk 3''"
    by code_simp
  from cache_hit_message [OF h] f m h show ?thesis
    by auto
qed

subsection \<open>Claim C7\<close>






section \<open>Answer generation\<close>

subsection \<open>Claim C8\<close>

text \<open>
  C8. For every request whose reranked context is the empty list, \<open>generate_answer\<close>
  returns the one message \<^verbatim>\<open>I don't know.\<close>, sends no prompt to the language model and
  leaves both logs as they were.
\<close>

theorem generate_empty_context:
  "generate_answer strip prompt_of llm today q rewritten [] logs
     = \<lparr>out_messages = [''I don't know.''], out_logs = logs, llm_calls = []\<rparr>"
  by (simp add: generate_answer_def)

theorem generate_empty_context_witness:
  "generate_answer ascii_strip plain_prompt (\<lambda>p. Parsed (Some ''A'') None) 20240102 ''What is X?'' None []
       ex_store
     = \<lparr>out_messages = [''I don't know.''], out_logs = ex_store,
         llm_calls = []\<rparr>"
  using generate_empty_context [of ascii_strip plain_prompt "\<lambda>p. Parsed (Some ''A'') None" 20240102
      "''What is X?''" None "ex_store"]
  by simp

subsection \<open>Claim C9\<close>

text \<open>
  C9 as stated fails for an output that is a JSON object of another shape: the fields are
  read with \<^verbatim>\<open>.get\<close> and a default. For the output \<^verbatim>\<open>{}\<close> the answer is the empty
  text, an Audit Record with this answer is written and no error record.
\<close>

theorem generate_failure_counterexample:
  "[dA] \<noteq> []
   \<and> generate_answer ascii_strip plain_prompt (\<lambda>p. Parsed None None) 20240102 ''What is X?'' None [dA] empty_logs
     = \<lparr>out_messages = [''''],
         out_logs = \<lparr>qa_logs = [(20240102,
                        \<lparr>ended_lines = [Entry \<lparr>question = Some ''What is X?'', rewritten_queries = [],
                           answer = Some '''', citations = Some [],
                           reranked_context = [(''a.pdf, page 1, chunk 0'', ''alpha'')]\<rparr>],
                         tail = Ended, listed = True\<rparr>)],
                     error_logs = []\<rparr>,
         llm_calls = [''What is X?\<newline>[Source: a.pdf, page 1, chunk 0]\<newline>alpha\<newline>\<newline>---\<newline>\<newline>'']\<rparr>"
  by code_simp

text \<open>
  C9, amended. For every request with a non-empty reranked context: if the call of the
  language model, the parsing of its output as JSON or the reading of the result raises,
  \<open>generate_answer\<close> returns the fallback text, appends an error record (class of the
  exception, its text, the question) to the error partition and writes no Audit Record;
  if the output is a JSON object, a missing \<^verbatim>\<open>answer\<close> counts as the empty text and
  missing \<^verbatim>\<open>citations\<close> as the empty list, the answer is returned (with its sources
  when there are any), an Audit Record is written and no error record.
\<close>

theorem generate_failure:
  assumes "docs \<noteq> []"
  shows "(llm (prompt_of q (numbered_context strip docs)) = Raised e \<longrightarrow>
      out_messages (generate_answer strip prompt_of llm today q rewritten docs logs)
        = [''I don't know. (Error during answer generation)'']
      \<and> error_logs (out_logs (generate_answer strip prompt_of llm today q rewritten docs logs))
        = write_error today \<lparr>error_type = exc_type e, error_message = exc_message e, error_question = q\<rparr>
            (error_logs logs)
      \<and> qa_logs (out_logs (generate_answer strip prompt_of llm today q rewritten docs logs)) = qa_logs logs)
    \<and> (llm (prompt_of q (numbered_context strip docs)) = Parsed a c \<longrightarrow>
      out_messages (generate_answer strip prompt_of llm today q rewritten docs logs)
        = [(case a of Some s \<Rightarrow> s | None \<Rightarrow> [])
           @ (case c of Some (x # xs) \<Rightarrow> ''\<newline>\<newline>Sources:\<newline>'' @ join ''\<newline>'' (x # xs) | _ \<Rightarrow> [])]
      \<and> error_logs (out_logs (generate_answer strip prompt_of llm today q rewritten docs logs)) = error_logs logs
      \<and> qa_logs (out_logs (generate_answer strip prompt_of llm today q rewritten docs logs))
        = write_audit today
            \<lparr>question = Some q,
             rewritten_queries = (case rewritten of Some qs \<Rightarrow> qs | None \<Rightarrow> []),
             answer = Some (case a of Some s \<Rightarrow> s | None \<Rightarrow> []),
             citations = Some (case c of Some cs \<Rightarrow> cs | None \<Rightarrow> []),
             reranked_context = map (\<lambda>doc. (source_of doc, page_content doc)) docs\<rparr>
            (qa_logs logs))"
  using assms
  by (auto simp: generate_answer_def Let_def split: option.splits list.splits)

theorem generate_failure_witness:
  "[dA] \<noteq> []
   \<and> generate_answer ascii_strip plain_prompt (\<lambda>p. Raised timeout_error) 20240102 ''What is X?'' None [dA] empty_logs
     = \<lparr>out_messages = [''I don't know. (Error during answer generation)''],
         out_logs = \<lparr>qa_logs = [],
                     error_logs = [(20240102, [\<lparr>error_type = ''TimeoutError'', error_message = ''timed out'',
                                               error_question = ''What is X?''\<rparr>])]\<rparr>,
         llm_calls = [''What is X?\<newline>[Source: a.pdf, page 1, chunk 0]\<newline>alpha\<newline>\<newline>---\<newline>\<newline>'']\<rparr>
   \<and> qa_logs (out_logs (generate_answer ascii_strip plain_prompt (\<lambda>p. Raised timeout_error) 20240102
         ''What is X?'' None [dA] empty_logs)) = qa_logs empty_logs"
proof -
  have h: "[dA] \<noteq> []" by simp
  have v: "generate_answer ascii_strip plain_prompt (\<lambda>p. Raised timeout_error) 20240102 ''What is X?'' None [dA] empty_logs
     = \<lparr>out_messages = [''I don't know. (Error during answer generation)''],
         out_logs = \<lparr>qa_logs = [],
                     error_logs = [(20240102, [\<lparr>error_type = ''TimeoutError'', error_message = ''timed out'',
                                               error_question = ''What is X?''\<rparr>])]\<rparr>,
         llm_calls = [''What is X?\<newline>[Source: a.pdf, page 1, chunk 0]\<newline>alpha\<newline>\<newline>---\<newline>\<newline>'']\<rparr>"
    by code_simp
  from generate_failure [OF h, of "\<lambda>p. Raised timeout_error" plain_prompt "''What is X?''" ascii_strip
      timeout_error 20240102 None empty_logs]
  have "qa_logs (out_logs (generate_answer ascii_strip plain_prompt (\<lambda>p. Raised timeout_error) 20240102
         ''What is X?'' None [dA] empty_logs)) = qa_logs empty_logs"
    by blast
  with h v show ?thesis by blast
qed


section \<open>The Audit Record as the source of the cache\<close>













subsection \<open>Claim C5\<close>




end
